theory Spec2Isabelle
  imports Main
begin

section \<open>The discharge download script\<close>

text \<open>
  A shallow embedding of \<open>src/data/download_discharge_data_cli.py\<close>. The script builds a
  request dictionary for one year, checks whether the destination file exists and, if it
  does not, hands the request to the external client. Everything the script does beyond
  computing values is explicit here: the filesystem and the sequence of observable events
  (lines printed, calls made to the client) form the world that each function takes and
  returns, and every exception is a value.
\<close>

subsection \<open>Values, requests, events\<close>

text \<open>The values of the request dictionary: a string, a list of strings, a list of ints.\<close>

datatype val = Str string | StrList "string list" | IntList "int list"

text \<open>
  A dictionary literal, in the order the source writes its items. Python compares
  dictionaries by key and value, not by order, so two requests are equal as dictionaries
  when their \<open>map_of\<close> are equal.
\<close>

type_synonym request = "(string \<times> val) list"

datatype exn = IndexError | ValueError | ClientError string

datatype event = Print string | Retrieve string request string

type_synonym fs = "string \<rightharpoonup> string"

record world =
  files :: fs
  trace :: "event list"

text \<open>
  The external client \<open>c.retrieve(dataset, request, target)\<close>: it is not part of this
  program, so it is a parameter. It may raise or return, and either way it may have
  changed the filesystem.
\<close>

type_synonym client = "string \<Rightarrow> request \<Rightarrow> string \<Rightarrow> fs \<Rightarrow> exn option \<times> fs"

type_synonym outcome = "(exn + unit) \<times> world"

subsection \<open>Python builtins used by the script\<close>

text \<open>
  \<open>str(y)\<close> for an int: decimal digits, most significant first, with a leading minus
  sign for a negative number. Python's ints are unbounded, so \<open>y\<close> is an \<open>int\<close>. (The
  interpreter's configurable limit on the number of digits of a conversion is not part of
  the model.)
\<close>

definition digit_char :: "nat \<Rightarrow> char" where
  "digit_char d = ''0123456789'' ! (d mod 10)"

fun str_nat :: "nat \<Rightarrow> string" where
  "str_nat n = (if n < 10 then [digit_char n] else str_nat (n div 10) @ [digit_char (n mod 10)])"

declare str_nat.simps [simp del]

definition str :: "int \<Rightarrow> string" where
  "str y = (if y < 0 then CHR ''-'' # str_nat (nat (- y)) else str_nat (nat y))"

text \<open>
  \<open>int(s)\<close> for a string, base ten: surrounding whitespace is dropped, then an optional
  sign, then decimal digits, where one underscore may stand between two digits. Anything
  else raises \<open>ValueError\<close>, which is \<open>None\<close> here. Strings are byte strings: the decimal
  digits and spaces of other scripts, which Python accepts too, are outside the model.
\<close>

definition is_space :: "char \<Rightarrow> bool" where
  "is_space ch = (ch \<in> set [CHR 0x09, CHR 0x0A, CHR 0x0B, CHR 0x0C, CHR 0x0D,
                             CHR 0x1C, CHR 0x1D, CHR 0x1E, CHR 0x1F, CHR 0x20])"

definition strip :: "string \<Rightarrow> string" where
  "strip s = rev (dropWhile is_space (rev (dropWhile is_space s)))"

definition digit_val :: "char \<Rightarrow> nat option" where
  "digit_val ch = map_of (zip ''0123456789'' [0 ..< 10]) ch"

fun digits_tail :: "nat \<Rightarrow> string \<Rightarrow> nat option" where
  "digits_tail acc [] = Some acc"
| "digits_tail acc [ch] =
     (case digit_val ch of None \<Rightarrow> None | Some v \<Rightarrow> Some (10 * acc + v))"
| "digits_tail acc (ch # ch' # cs) =
     (if ch = CHR ''_'' then
        (case digit_val ch' of None \<Rightarrow> None | Some v \<Rightarrow> digits_tail (10 * acc + v) cs)
      else
        (case digit_val ch of None \<Rightarrow> None | Some v \<Rightarrow> digits_tail (10 * acc + v) (ch' # cs)))"

definition digits :: "string \<Rightarrow> nat option" where
  "digits s =
     (case s of [] \<Rightarrow> None
      | ch # cs \<Rightarrow> (case digit_val ch of None \<Rightarrow> None | Some v \<Rightarrow> digits_tail v cs))"

definition int_of_str :: "string \<Rightarrow> int option" where
  "int_of_str s =
     (case strip s of [] \<Rightarrow> None
      | ch # cs \<Rightarrow>
          if ch = CHR ''-'' then map_option (\<lambda>n. - int n) (digits cs)
          else if ch = CHR ''+'' then map_option int (digits cs)
          else map_option int (digits (ch # cs)))"

text \<open>\<open>os.path.exists\<close>: whether the path names something on the filesystem.\<close>

definition exists :: "fs \<Rightarrow> string \<Rightarrow> bool" where
  "exists f p = (f p \<noteq> None)"

text \<open>\<open>print\<close> appends a line to standard output.\<close>

definition print_line :: "string \<Rightarrow> world \<Rightarrow> world" where
  "print_line s w = w\<lparr>trace := trace w @ [Print s]\<rparr>"

text \<open>
  The call \<open>c.retrieve(dataset, request, target)\<close>: the call is recorded, the client
  runs on the filesystem, and what it raises is raised by the caller's call expression.
\<close>

definition client_retrieve :: "client \<Rightarrow> string \<Rightarrow> request \<Rightarrow> string \<Rightarrow> world \<Rightarrow> outcome" where
  "client_retrieve c dataset req target w =
     (case c dataset req target (files w) of
        (r, f') \<Rightarrow>
          ((case r of None \<Rightarrow> Inr () | Some e \<Rightarrow> Inl e),
           \<lparr>files = f', trace = trace w @ [Retrieve dataset req target]\<rparr>))"

subsection \<open>The script\<close>

text \<open>The dictionary literal of \<open>retrievefull\<close>.\<close>

definition retrievefull_request :: "int \<Rightarrow> request" where
  "retrievefull_request y =
     [(''system_version'', Str ''version_4_0''),
      (''variable'', Str ''river_discharge_in_the_last_6_hours''),
      (''model_levels'', Str ''surface_level''),
      (''hyear'', Str (str y)),
      (''hmonth'', StrList
         [''01'', ''02'', ''03'',
          ''04'', ''05'', ''06'',
          ''07'', ''08'', ''09'',
          ''10'', ''11'', ''12'']),
      (''hday'', StrList
         [''01'', ''02'', ''03'',
          ''04'', ''05'', ''06'',
          ''07'', ''08'', ''09'',
          ''10'', ''11'', ''12'',
          ''13'', ''14'', ''15'',
          ''16'', ''17'', ''18'',
          ''19'', ''20'', ''21'',
          ''22'', ''23'', ''24'',
          ''25'', ''26'', ''27'',
          ''28'', ''29'', ''30'',
          ''31'']),
      (''time'', StrList
         [''00:00'', ''06:00'', ''12:00'',
          ''18:00'']),
      (''format'', Str ''netcdf'')]"

definition retrievefull :: "client \<Rightarrow> int \<Rightarrow> world \<Rightarrow> outcome" where
  "retrievefull c y w =
     (let filename = ''discharge_'' @ str y @ ''_full.nc.zip'' in
      if \<not> exists (files w) filename then
        client_retrieve c ''efas-historical'' (retrievefull_request y) filename w
      else (Inr (), w))"

text \<open>The dictionary literal of \<open>retrieve\<close>.\<close>

definition retrieve_request :: "int \<Rightarrow> request" where
  "retrieve_request y =
     [(''format'', Str ''netcdf''),
      (''system_version'', Str ''version_4_0''),
      (''variable'', Str ''river_discharge_in_the_last_6_hours''),
      (''model_levels'', Str ''surface_level''),
      (''hyear'', Str (str y)),
      (''hmonth'', StrList
         [''01'', ''02'', ''03'',
          ''04'', ''05'', ''06'',
          ''07'', ''08'', ''09'',
          ''10'', ''11'', ''12'']),
      (''hday'', StrList
         [''01'', ''02'', ''03'',
          ''04'', ''05'', ''06'',
          ''07'', ''08'', ''09'',
          ''10'', ''11'', ''12'',
          ''13'', ''14'', ''15'',
          ''16'', ''17'', ''18'',
          ''19'', ''20'', ''21'',
          ''22'', ''23'', ''24'',
          ''25'', ''26'', ''27'',
          ''28'', ''29'', ''30'',
          ''31'']),
      (''time'', StrList
         [''00:00'', ''06:00'', ''12:00'',
          ''18:00'']),
      (''area'', IntList
         [54, 14, 49,
          20])]"

definition retrieve :: "client \<Rightarrow> int \<Rightarrow> world \<Rightarrow> outcome" where
  "retrieve c y w =
     (let filename = ''discharge_'' @ str y @ ''.nc.zip'' in
      if \<not> exists (files w) filename then
        client_retrieve c ''efas-historical'' (retrieve_request y) filename w
      else (Inr (), w))"

text \<open>
  \<open>main\<close>: \<open>sys.argv[1]\<close> raises \<open>IndexError\<close> when there is no argument, \<open>int\<close> raises
  \<open>ValueError\<close> when the argument is not a number; then the message is printed and
  \<open>retrievefull\<close> is called. The call of \<open>retrieve\<close> is commented out in the source.
\<close>

definition main :: "client \<Rightarrow> string list \<Rightarrow> world \<Rightarrow> outcome" where
  "main c argv w =
     (case argv of
        _ # arg # _ \<Rightarrow>
          (case int_of_str arg of
             None \<Rightarrow> (Inl ValueError, w)
           | Some y \<Rightarrow> retrievefull c y (print_line (''downloading year '' @ str y) w))
      | _ \<Rightarrow> (Inl IndexError, w))"

subsection \<open>Reading the world\<close>

text \<open>The events a run has added to the trace it started with.\<close>

definition new_events :: "world \<Rightarrow> world \<Rightarrow> event list" where
  "new_events w w' = drop (length (trace w)) (trace w')"

fun is_Retrieve :: "event \<Rightarrow> bool" where
  "is_Retrieve (Retrieve _ _ _) = True"
| "is_Retrieve (Print _) = False"

text \<open>The request dictionaries of the calls among some events, in order.\<close>

fun requests :: "event list \<Rightarrow> request list" where
  "requests [] = []"
| "requests (Retrieve d r t # es) = r # requests es"
| "requests (Print s # es) = requests es"

text \<open>
  The labels \<open>01\<close>, \<open>02\<close>, ..., \<open>n\<close> in two digits, as the specification describes the
  month and day selectors.
\<close>

definition two_digit :: "nat \<Rightarrow> string" where
  "two_digit n = [digit_char (n div 10), digit_char n]"

definition labels_upto :: "nat \<Rightarrow> string list" where
  "labels_upto n = map two_digit [1 ..< Suc n]"

subsection \<open>Stub clients and a starting world\<close>

text \<open>
  Two clients to run the script against: one that writes the target file and returns,
  one that raises without touching the filesystem. And a world with no file and nothing
  printed.
\<close>

definition stub_ok :: client where
  "stub_ok dataset req target f = (None, f(target \<mapsto> ''data''))"

definition stub_fail :: client where
  "stub_fail dataset req target f = (Some (ClientError ''network''), f)"

definition empty_world :: world where
  "empty_world = \<lparr>files = Map.empty, trace = []\<rparr>"

definition world_with :: "string \<Rightarrow> string \<Rightarrow> world" where
  "world_with p content = \<lparr>files = [p \<mapsto> content], trace = []\<rparr>"

subsection \<open>Basic facts\<close>

lemma str_2019: "str 2019 = ''2019''"
  by code_simp

lemma int_of_str_2019: "int_of_str ''2019'' = Some 2019"
  by code_simp

lemma int_of_str_abc: "int_of_str ''abc'' = None"
  by code_simp

lemma new_events_append: "trace w' = trace w @ evs \<Longrightarrow> new_events w w' = evs"
  by (simp add: new_events_def)

lemma new_events_same: "new_events w w = []"
  by (simp add: new_events_def)

lemma digit_char_in: "digit_char d \<in> set ''0123456789''"
  unfolding digit_char_def by (rule nth_mem) simp

lemma str_nat_chars: "set (str_nat n) \<subseteq> set ''0123456789''"
proof -
  define S where "S = set ''0123456789''"
  have d: "digit_char k \<in> S" for k
    unfolding S_def by (rule digit_char_in)
  have "set (str_nat n) \<subseteq> S"
  proof (induction n rule: str_nat.induct)
    case (1 n)
    show ?case
    proof (cases "n < 10")
      case True
      then show ?thesis using d by (subst str_nat.simps) simp
    next
      case False
      then show ?thesis using 1 d by (subst str_nat.simps) simp
    qed
  qed
  then show ?thesis unfolding S_def .
qed

lemma str_chars: "set (str y) \<subseteq> set ''-0123456789''"
proof -
  define S where "S = set ''0123456789''"
  have sub: "set (str_nat k) \<subseteq> insert CHR ''-'' S" for k
    using str_nat_chars [of k] unfolding S_def by (rule subset_insertI2)
  have "set (str y) \<subseteq> insert CHR ''-'' S"
    using sub [of "nat y"] sub [of "nat (- y)"] by (simp add: str_def)
  then show ?thesis unfolding S_def by (simp only: list.simps(15))
qed

lemma str_no_slash: "CHR ''/'' \<notin> set (str y)"
proof
  assume "CHR ''/'' \<in> set (str y)"
  then have "CHR ''/'' \<in> set ''-0123456789''" using str_chars by (rule subsetD [rotated])
  then show False by simp
qed

lemma str_no_underscore: "CHR ''_'' \<notin> set (str y)"
proof
  assume "CHR ''_'' \<in> set (str y)"
  then have "CHR ''_'' \<in> set ''-0123456789''" using str_chars by (rule subsetD [rotated])
  then show False by simp
qed

lemma client_retrieve_trace:
  "trace (snd (client_retrieve c d r t w)) = trace w @ [Retrieve d r t]"
  by (simp add: client_retrieve_def split: prod.split)

lemma client_retrieve_files:
  "files (snd (client_retrieve c d r t w)) = snd (c d r t (files w))"
  by (simp add: client_retrieve_def split: prod.split)

lemma client_retrieve_fst:
  "fst (client_retrieve c d r t w) =
     (case fst (c d r t (files w)) of None \<Rightarrow> Inr () | Some e \<Rightarrow> Inl e)"
  by (simp add: client_retrieve_def split: prod.split)

lemma client_retrieve_events:
  "new_events w (snd (client_retrieve c d r t w)) = [Retrieve d r t]"
  by (rule new_events_append) (rule client_retrieve_trace)

lemma retrievefull_absent:
  "files w (''discharge_'' @ str y @ ''_full.nc.zip'') = None \<Longrightarrow>
   retrievefull c y w =
     client_retrieve c ''efas-historical'' (retrievefull_request y)
       (''discharge_'' @ str y @ ''_full.nc.zip'') w"
  by (simp add: retrievefull_def exists_def)

lemma retrievefull_present:
  "files w (''discharge_'' @ str y @ ''_full.nc.zip'') = Some x \<Longrightarrow>
   retrievefull c y w = (Inr (), w)"
  by (simp add: retrievefull_def exists_def)

lemma retrieve_absent:
  "files w (''discharge_'' @ str y @ ''.nc.zip'') = None \<Longrightarrow>
   retrieve c y w =
     client_retrieve c ''efas-historical'' (retrieve_request y)
       (''discharge_'' @ str y @ ''.nc.zip'') w"
  by (simp add: retrieve_def exists_def)

lemma retrieve_present:
  "files w (''discharge_'' @ str y @ ''.nc.zip'') = Some x \<Longrightarrow>
   retrieve c y w = (Inr (), w)"
  by (simp add: retrieve_def exists_def)

lemma retrievefull_events:
  "new_events w (snd (retrievefull c y w)) =
     (if files w (''discharge_'' @ str y @ ''_full.nc.zip'') = None
      then [Retrieve ''efas-historical'' (retrievefull_request y)
              (''discharge_'' @ str y @ ''_full.nc.zip'')]
      else [])"
proof (cases "files w (''discharge_'' @ str y @ ''_full.nc.zip'')")
  case None
  then show ?thesis by (simp add: retrievefull_absent client_retrieve_events)
next
  case (Some x)
  then show ?thesis by (simp add: retrievefull_present new_events_same)
qed

lemma retrieve_events:
  "new_events w (snd (retrieve c y w)) =
     (if files w (''discharge_'' @ str y @ ''.nc.zip'') = None
      then [Retrieve ''efas-historical'' (retrieve_request y)
              (''discharge_'' @ str y @ ''.nc.zip'')]
      else [])"
proof (cases "files w (''discharge_'' @ str y @ ''.nc.zip'')")
  case None
  then show ?thesis by (simp add: retrieve_absent client_retrieve_events)
next
  case (Some x)
  then show ?thesis by (simp add: retrieve_present new_events_same)
qed

lemma retrievefull_trace:
  "trace (snd (retrievefull c y w)) = trace w @ new_events w (snd (retrievefull c y w))"
proof (cases "files w (''discharge_'' @ str y @ ''_full.nc.zip'')")
  case None
  then show ?thesis
    by (simp add: retrievefull_absent client_retrieve_events client_retrieve_trace)
next
  case (Some x)
  then show ?thesis by (simp add: retrievefull_present new_events_same)
qed


lemma print_line_files: "files (print_line s w) = files w"
  by (simp add: print_line_def)

lemma print_line_trace: "trace (print_line s w) = trace w @ [Print s]"
  by (simp add: print_line_def)

lemma main_no_argument: "length argv < 2 \<Longrightarrow> main c argv w = (Inl IndexError, w)"
  by (cases argv; cases "tl argv") (simp_all add: main_def)

lemma main_bad_argument:
  "2 \<le> length argv \<Longrightarrow> int_of_str (argv ! 1) = None \<Longrightarrow> main c argv w = (Inl ValueError, w)"
  by (cases argv; cases "tl argv") (simp_all add: main_def)

lemma main_good_argument:
  "2 \<le> length argv \<Longrightarrow> int_of_str (argv ! 1) = Some y \<Longrightarrow>
   main c argv w = retrievefull c y (print_line (''downloading year '' @ str y) w)"
  by (cases argv; cases "tl argv") (simp_all add: main_def)

lemma main_events:
  assumes "2 \<le> length argv" and "int_of_str (argv ! 1) = Some y"
  shows "new_events w (snd (main c argv w)) =
           Print (''downloading year '' @ str y) #
           (if files w (''discharge_'' @ str y @ ''_full.nc.zip'') = None
            then [Retrieve ''efas-historical'' (retrievefull_request y)
                    (''discharge_'' @ str y @ ''_full.nc.zip'')]
            else [])"
proof -
  let ?w1 = "print_line (''downloading year '' @ str y) w"
  have m: "main c argv w = retrievefull c y ?w1"
    using assms by (rule main_good_argument)
  have "trace (snd (retrievefull c y ?w1)) =
          trace w @ Print (''downloading year '' @ str y) # new_events ?w1 (snd (retrievefull c y ?w1))"
    by (subst retrievefull_trace) (simp add: print_line_trace)
  then have "new_events w (snd (main c argv w)) =
          Print (''downloading year '' @ str y) # new_events ?w1 (snd (retrievefull c y ?w1))"
    unfolding m by (rule new_events_append)
  then show ?thesis
    by (simp only: retrievefull_events print_line_files)
qed

lemma labels_12:
  "labels_upto 12 =
     [''01'', ''02'', ''03'', ''04'', ''05'', ''06'', ''07'', ''08'', ''09'', ''10'', ''11'', ''12'']"
  by code_simp

lemma labels_31:
  "labels_upto 31 =
     [''01'', ''02'', ''03'', ''04'', ''05'', ''06'', ''07'', ''08'', ''09'', ''10'',
      ''11'', ''12'', ''13'', ''14'', ''15'', ''16'', ''17'', ''18'', ''19'', ''20'',
      ''21'', ''22'', ''23'', ''24'', ''25'', ''26'', ''27'', ''28'', ''29'', ''30'', ''31'']"
  by code_simp

lemma length_labels_upto: "length (labels_upto n) = n"
  by (simp add: labels_upto_def)

section \<open>The claims\<close>

text \<open>
  C1. For every year \<open>y\<close>, every request dictionary that \<open>retrievefull y\<close> hands to the
  client has \<open>hyear\<close> equal to \<open>str y\<close>, \<open>hmonth\<close> equal to the twelve labels \<open>01\<close> to
  \<open>12\<close>, \<open>hday\<close> equal to the thirty-one labels \<open>01\<close> to \<open>31\<close>, and \<open>time\<close> equal to
  the four labels \<open>00:00\<close>, \<open>06:00\<close>, \<open>12:00\<close>, \<open>18:00\<close>.
\<close>

theorem retrievefull_request_selectors:
  "\<forall>r \<in> set (requests (new_events w (snd (retrievefull c y w)))).
     map_of r ''hyear'' = Some (Str (str y)) \<and>
     map_of r ''hmonth'' = Some (StrList (labels_upto 12)) \<and>
     length (labels_upto 12) = 12 \<and>
     map_of r ''hday'' = Some (StrList (labels_upto 31)) \<and>
     length (labels_upto 31) = 31 \<and>
     map_of r ''time'' = Some (StrList [''00:00'', ''06:00'', ''12:00'', ''18:00''])"
proof -
  have "map_of (retrievefull_request y) ''hyear'' = Some (Str (str y))"
    by (simp add: retrievefull_request_def)
  moreover have "map_of (retrievefull_request y) ''hmonth'' = Some (StrList (labels_upto 12))"
    by (simp add: retrievefull_request_def labels_12)
  moreover have "map_of (retrievefull_request y) ''hday'' = Some (StrList (labels_upto 31))"
    by (simp add: retrievefull_request_def labels_31)
  moreover have "map_of (retrievefull_request y) ''time'' =
      Some (StrList [''00:00'', ''06:00'', ''12:00'', ''18:00''])"
    by (simp add: retrievefull_request_def)
  ultimately show ?thesis
    by (simp add: retrievefull_events length_labels_upto)
qed

theorem retrievefull_request_selectors_witness:
  "requests (new_events empty_world (snd (retrievefull stub_ok 2019 empty_world))) =
     [retrievefull_request 2019] \<and>
   map_of (retrievefull_request 2019) ''hyear'' = Some (Str ''2019'') \<and>
   map_of (retrievefull_request 2019) ''hmonth'' = Some (StrList (labels_upto 12)) \<and>
   map_of (retrievefull_request 2019) ''hday'' = Some (StrList (labels_upto 31)) \<and>
   map_of (retrievefull_request 2019) ''time'' =
     Some (StrList [''00:00'', ''06:00'', ''12:00'', ''18:00''])"
proof -
  have r: "requests (new_events empty_world (snd (retrievefull stub_ok 2019 empty_world))) =
      [retrievefull_request 2019]"
    by (simp add: retrievefull_events empty_world_def)
  then have "retrievefull_request 2019 \<in>
      set (requests (new_events empty_world (snd (retrievefull stub_ok 2019 empty_world))))"
    by simp
  with retrievefull_request_selectors [of empty_world stub_ok 2019] r show ?thesis
    by (simp only: str_2019)
qed

text \<open>
  C2. If the file \<open>discharge_<y>_full.nc.zip\<close> exists, whatever its content,
  \<open>retrievefull y\<close> returns normally with the world as it was: no call to the client is
  made and the filesystem is unchanged.
\<close>

theorem retrievefull_skips_existing:
  "files w (''discharge_'' @ str y @ ''_full.nc.zip'') = Some content \<Longrightarrow>
   retrievefull c y w = (Inr (), w) \<and>
   new_events w (snd (retrievefull c y w)) = [] \<and>
   files (snd (retrievefull c y w)) = files w"
  by (simp add: retrievefull_present new_events_same)

theorem retrievefull_skips_existing_witness:
  "files (world_with ''discharge_2019_full.nc.zip'' ''truncated'')
     (''discharge_'' @ str 2019 @ ''_full.nc.zip'') = Some ''truncated'' \<and>
   retrievefull stub_fail 2019 (world_with ''discharge_2019_full.nc.zip'' ''truncated'') =
     (Inr (), world_with ''discharge_2019_full.nc.zip'' ''truncated'')"
proof -
  have h: "files (world_with ''discharge_2019_full.nc.zip'' ''truncated'')
     (''discharge_'' @ str 2019 @ ''_full.nc.zip'') = Some ''truncated''"
    by (simp add: world_with_def str_2019)
  from retrievefull_skips_existing [OF h, of stub_fail] h show ?thesis
    by blast
qed

text \<open>
  C3. If the file \<open>discharge_<y>_full.nc.zip\<close> does not exist, \<open>retrievefull y\<close> makes
  exactly one call to the client, with the dataset \<open>efas-historical\<close> and that filename
  as the destination.
\<close>

theorem retrievefull_one_call:
  "files w (''discharge_'' @ str y @ ''_full.nc.zip'') = None \<Longrightarrow>
   new_events w (snd (retrievefull c y w)) =
     [Retrieve ''efas-historical'' (retrievefull_request y)
        (''discharge_'' @ str y @ ''_full.nc.zip'')] \<and>
   length (filter is_Retrieve (new_events w (snd (retrievefull c y w)))) = 1"
  by (simp add: retrievefull_events)

theorem retrievefull_one_call_witness:
  "files empty_world (''discharge_'' @ str 2019 @ ''_full.nc.zip'') = None \<and>
   new_events empty_world (snd (retrievefull stub_ok 2019 empty_world)) =
     [Retrieve ''efas-historical'' (retrievefull_request 2019) ''discharge_2019_full.nc.zip'']"
proof -
  have h: "files empty_world (''discharge_'' @ str 2019 @ ''_full.nc.zip'') = None"
    by (simp add: empty_world_def)
  from retrievefull_one_call [OF h, of stub_ok] h show ?thesis
    by (simp add: str_2019)
qed

end
